theory Spec2Isabelle
  imports
    Main
    "HOL-Library.Char_ord"
    "HOL-Library.List_Lexorder"
    "HOL-Library.Product_Lexorder"
    "HOL-Library.Multiset"
begin

section \<open>pre-commit-python-eol: the EOL check of \<^verbatim>\<open>check_eol.py\<close>\<close>

text \<open>
  The module \<^verbatim>\<open>src/pre_commit_python_eol/check_eol.py\<close> reads the
  \<^verbatim>\<open>requires-python\<close> specifier of a \<^verbatim>\<open>pyproject.toml\<close>, loads the cached
  release cycle of CPython, and reports (or repairs) a specifier that still admits an
  end-of-life release.

  Python strings are modelled as \<^typ>\<open>string\<close>, restricted to ASCII. Exceptions are
  values of the type \<open>error\<close>; a function that may raise returns \<open>error + 'a\<close>, with
  \<open>Inl\<close> for the exception.
\<close>

subsection \<open>Exceptions\<close>

datatype error =
    EOLPythonError string
  | RequiresPythonNotFoundError
  | UnsupportedFixError
  | ValueError
  | OverflowError
  | KeyError string
  | IndexError
  | InvalidVersion
  | InvalidSpecifier
  | FileNotFoundError

subsection \<open>Built-ins: \<^verbatim>\<open>str.split\<close>, \<^verbatim>\<open>int\<close>, \<^verbatim>\<open>str\<close> of an integer\<close>

text \<open>\<^verbatim>\<open>s.split(sep)\<close> for a one-character separator: \<open>n\<close> separators give \<open>n + 1\<close> parts.\<close>

fun str_split :: "char \<Rightarrow> string \<Rightarrow> string list" where
  "str_split sep [] = [[]]"
| "str_split sep (c # cs) =
     (if c = sep then [] # str_split sep cs
      else (case str_split sep cs of
              [] \<Rightarrow> [[c]]
            | p # ps \<Rightarrow> (c # p) # ps))"

definition is_digit :: "char \<Rightarrow> bool" where
  "is_digit c = (48 \<le> (of_char c :: nat) \<and> (of_char c :: nat) \<le> 57)"

definition digit_val :: "char \<Rightarrow> nat" where
  "digit_val c = of_char c - 48"

text \<open>The ASCII characters that \<^verbatim>\<open>int\<close> strips: tab, LF, VT, FF, CR and space.\<close>

definition is_space :: "char \<Rightarrow> bool" where
  "is_space c = ((9 \<le> (of_char c :: nat) \<and> (of_char c :: nat) \<le> 13) \<or> (of_char c :: nat) = 32)"

definition strip :: "string \<Rightarrow> string" where
  "strip s = rev (dropWhile is_space (rev (dropWhile is_space s)))"

definition digits_to_nat :: "string \<Rightarrow> nat" where
  "digits_to_nat ds = foldl (\<lambda>acc c. 10 * acc + digit_val c) 0 ds"

text \<open>
  \<^verbatim>\<open>int(s)\<close> in base 10 on an ASCII string: surrounding whitespace is stripped, one sign
  is allowed, the digits may be grouped by single underscores, and more than 4300 digits
  (the default \<^verbatim>\<open>sys.int_info.default_max_str_digits\<close>) are refused. \<open>None\<close> is the
  \<^verbatim>\<open>ValueError\<close>.
\<close>

definition int_digits :: "string \<Rightarrow> int option" where
  "int_digits body =
     (let groups = str_split (CHR ''_'') body in
      if (\<forall>g \<in> set groups. g \<noteq> [] \<and> (\<forall>c \<in> set g. is_digit c))
         \<and> length (concat groups) \<le> 4300
      then Some (int (digits_to_nat (concat groups)))
      else None)"

definition py_int :: "string \<Rightarrow> int option" where
  "py_int s =
     (case strip s of
        [] \<Rightarrow> None
      | c # cs \<Rightarrow>
          if c = CHR ''+'' then int_digits cs
          else if c = CHR ''-'' then map_option uminus (int_digits cs)
          else int_digits (c # cs))"

text \<open>\<^verbatim>\<open>str(n)\<close> for a non-negative integer.\<close>

fun str_nat :: "nat \<Rightarrow> string" where
  "str_nat n =
     (if n < 10 then [char_of (48 + n)]
      else str_nat (n div 10) @ [char_of (48 + n mod 10)])"

declare str_nat.simps [simp del]

text \<open>\<^verbatim>\<open>sep.join(parts)\<close>.\<close>

fun join :: "string \<Rightarrow> string list \<Rightarrow> string" where
  "join sep [] = []"
| "join sep [p] = p"
| "join sep (p # q # ps) = p @ sep @ join sep (q # ps)"

subsection \<open>\<^verbatim>\<open>datetime.date\<close>\<close>

record date =
  year :: nat
  month :: nat
  day :: nat

definition is_leap :: "nat \<Rightarrow> bool" where
  "is_leap y = (y mod 4 = 0 \<and> (y mod 100 \<noteq> 0 \<or> y mod 400 = 0))"

definition days_in_month :: "nat \<Rightarrow> nat \<Rightarrow> nat" where
  "days_in_month y m =
     (if m = 2 then (if is_leap y then 29 else 28)
      else if m = 4 \<or> m = 6 \<or> m = 9 \<or> m = 11 then 30
      else 31)"

text \<open>
  The constructor \<^verbatim>\<open>dt.date(year, month, day)\<close>: an argument that does not fit a C
  \<^verbatim>\<open>int\<close> raises \<^verbatim>\<open>OverflowError\<close>, a date outside the calendar raises
  \<^verbatim>\<open>ValueError\<close>.
\<close>

definition fits_c_int :: "int \<Rightarrow> bool" where
  "fits_c_int i = (- 2147483648 \<le> i \<and> i \<le> 2147483647)"

definition dt_date :: "int \<Rightarrow> int \<Rightarrow> int \<Rightarrow> error + date" where
  "dt_date y m d =
     (if \<not> (fits_c_int y \<and> fits_c_int m \<and> fits_c_int d) then Inl OverflowError
      else if y < 1 \<or> 9999 < y then Inl ValueError
      else if m < 1 \<or> 12 < m then Inl ValueError
      else if d < 1 \<or> int (days_in_month (nat y) (nat m)) < d then Inl ValueError
      else Inr \<lparr>year = nat y, month = nat m, day = nat d\<rparr>)"

text \<open>Dates compare as the triples (year, month, day).\<close>

definition date_le :: "date \<Rightarrow> date \<Rightarrow> bool" where
  "date_le a b = ((year a, month a, day a) \<le> (year b, month b, day b))"

subsubsection \<open>\<^verbatim>\<open>date.fromisoformat\<close>\<close>

text \<open>
  \<^verbatim>\<open>date.fromisoformat\<close> of CPython 3.11 (the module needs \<^verbatim>\<open>enum.StrEnum\<close>, so no
  earlier version runs it), as its C implementation parses an ASCII string: the length
  must be 7, 8 or 10; four digits of year, an optional dash, then either \<^verbatim>\<open>W\<close> with a
  two-digit ISO week and an optional one-digit day, or two digits of month and two of
  day. Characters after the last field are not looked at.
\<close>

fun parse_digits :: "string \<Rightarrow> nat \<Rightarrow> nat \<Rightarrow> (nat \<times> string) option" where
  "parse_digits p 0 var = Some (var, p)"
| "parse_digits [] (Suc n) var = None"
| "parse_digits (c # p) (Suc n) var =
     (if is_digit c then parse_digits p n (10 * var + digit_val c) else None)"

definition days_before_month_tab :: "nat list" where
  "days_before_month_tab = [0, 0, 31, 59, 90, 120, 151, 181, 212, 243, 273, 304, 334]"

definition days_before_month :: "nat \<Rightarrow> nat \<Rightarrow> nat" where
  "days_before_month y m =
     days_before_month_tab ! m + (if 2 < m \<and> is_leap y then 1 else 0)"

definition days_before_year :: "nat \<Rightarrow> nat" where
  "days_before_year yr = (let y = yr - 1 in y * 365 + y div 4 - y div 100 + y div 400)"

definition ymd_to_ord :: "nat \<Rightarrow> nat \<Rightarrow> nat \<Rightarrow> nat" where
  "ymd_to_ord y m d = days_before_year y + days_before_month y m + d"

definition weekday :: "nat \<Rightarrow> nat \<Rightarrow> nat \<Rightarrow> nat" where
  "weekday y m d = (ymd_to_ord y m d + 6) mod 7"

definition iso_week1_monday :: "nat \<Rightarrow> int" where
  "iso_week1_monday y =
     (let first_day = ymd_to_ord y 1 1;
          first_weekday = (first_day + 6) mod 7;
          week1_monday = int first_day - int first_weekday
      in if 3 < first_weekday then week1_monday + 7 else week1_monday)"

text \<open>The ordinal of a day (1 is January 1 of year 1) to year, month and day.\<close>

definition ord_to_ymd :: "nat \<Rightarrow> nat \<times> nat \<times> nat" where
  "ord_to_ymd ordinal =
     (let ord0 = ordinal - 1;
          n400 = ord0 div 146097; r400 = ord0 mod 146097;
          n100 = r400 div 36524; r100 = r400 mod 36524;
          n4 = r100 div 1461; r4 = r100 mod 1461;
          n1 = r4 div 365; n = r4 mod 365;
          y = n400 * 400 + 1 + n100 * 100 + n4 * 4 + n1
      in if n1 = 4 \<or> n100 = 4 then (y - 1, 12, 31)
         else
           let leapyear = (n1 = 3 \<and> (n4 \<noteq> 24 \<or> n100 = 3));
               m = (n + 50) div 32;
               preceding = days_before_month_tab ! m + (if 2 < m \<and> leapyear then 1 else 0)
           in if n < preceding
              then (y, m - 1, Suc (n + days_in_month y (m - 1) - preceding))
              else (y, m, Suc (n - preceding)))"

text \<open>
  An ISO week date to year, month and day. Year 0 has no ordinal and is refused (3.11
  computes month 0 from it, which the constructor refuses; later versions test the year).
\<close>

definition iso_to_ymd :: "nat \<Rightarrow> nat \<Rightarrow> nat \<Rightarrow> (nat \<times> nat \<times> nat) option" where
  "iso_to_ymd iso_year iso_week iso_day =
     (if iso_year = 0 then None
      else if (iso_week = 0 \<or> 53 \<le> iso_week)
              \<and> \<not> (iso_week = 53
                    \<and> (weekday iso_year 1 1 = 3
                       \<or> (weekday iso_year 1 1 = 2 \<and> is_leap iso_year)))
      then None
      else if iso_day = 0 \<or> 8 \<le> iso_day then None
      else
        let day_1 = iso_week1_monday iso_year;
            day_offset = (iso_week - 1) * 7 + iso_day - 1
        in Some (ord_to_ymd (nat (day_1 + int day_offset))))"

definition parse_isoformat_date :: "string \<Rightarrow> (nat \<times> nat \<times> nat) option" where
  "parse_isoformat_date dtstr =
     (case parse_digits dtstr 4 0 of
        None \<Rightarrow> None
      | Some (y, p) \<Rightarrow>
          let uses_separator = (p \<noteq> [] \<and> hd p = CHR ''-'');
              p = (if uses_separator then tl p else p)
          in
          if p \<noteq> [] \<and> hd p = CHR ''W'' then
            (case parse_digits (tl p) 2 0 of
               None \<Rightarrow> None
             | Some (iso_week, p) \<Rightarrow>
                 if p \<noteq> [] then
                   if uses_separator \<and> hd p \<noteq> CHR ''-'' then None
                   else
                     (case parse_digits (if uses_separator then tl p else p) 1 0 of
                        None \<Rightarrow> None
                      | Some (iso_day, _) \<Rightarrow> iso_to_ymd y iso_week iso_day)
                 else iso_to_ymd y iso_week 1)
          else
            (case parse_digits p 2 0 of
               None \<Rightarrow> None
             | Some (m, p) \<Rightarrow>
                 if uses_separator \<and> (p = [] \<or> hd p \<noteq> CHR ''-'') then None
                 else
                   (case parse_digits (if uses_separator then tl p else p) 2 0 of
                      None \<Rightarrow> None
                    | Some (d, _) \<Rightarrow> Some (y, m, d))))"

definition fromisoformat :: "string \<Rightarrow> error + date" where
  "fromisoformat date_string =
     (if length date_string \<notin> {7, 8, 10} then Inl ValueError
      else (case parse_isoformat_date date_string of
              None \<Rightarrow> Inl ValueError
            | Some (y, m, d) \<Rightarrow> dt_date (int y) (int m) (int d)))"

subsection \<open>\<^verbatim>\<open>_parse_eol_date\<close>\<close>

definition parse_eol_date :: "string \<Rightarrow> error + date" where
  "parse_eol_date date_str =
     (let parts = str_split (CHR ''-'') date_str in
      if length parts = 3 then fromisoformat date_str
      else if length parts = 2 then
        (case (py_int (parts ! 0), py_int (parts ! 1)) of
           (Some y, Some m) \<Rightarrow> dt_date y m 1
         | _ \<Rightarrow> Inl ValueError)
      else Inl ValueError)"

subsection \<open>\<^verbatim>\<open>packaging.version.Version\<close>\<close>

text \<open>
  A parsed version of the \<^verbatim>\<open>packaging\<close> library: epoch, release segment, and the
  optional pre-release, post-release, development and local segments.
\<close>

record version =
  epoch :: nat
  release :: "nat list"
  pre :: "(string \<times> nat) option"
  post :: "nat option"
  dev :: "nat option"
  local_segment :: "(nat + string) list option"

definition major :: "version \<Rightarrow> nat" where
  "major v = (if 1 \<le> length (release v) then release v ! 0 else 0)"

definition minor :: "version \<Rightarrow> nat" where
  "minor v = (if 2 \<le> length (release v) then release v ! 1 else 0)"

text \<open>
  Versions compare by their key (\<^verbatim>\<open>_cmpkey\<close>): the epoch, the release without its
  trailing zeros, then the pre, post, dev and local segments, where a missing segment
  counts as plus or minus infinity. The key is a tuple of linear orders, compared
  lexicographically as Python compares tuples; an infinity is a leading tag.
\<close>

type_synonym cmpkey =
  "nat \<times> nat list \<times> (nat \<times> string \<times> nat) \<times> (nat \<times> nat) \<times> (nat \<times> nat)
     \<times> (nat \<times> (nat \<times> nat \<times> string) list)"

definition strip_trailing_zeros :: "nat list \<Rightarrow> nat list" where
  "strip_trailing_zeros rel = rev (dropWhile (\<lambda>x. x = 0) (rev rel))"

definition cmpkey :: "version \<Rightarrow> cmpkey" where
  "cmpkey v =
     (epoch v,
      strip_trailing_zeros (release v),
      (case pre v of
         None \<Rightarrow> (if post v = None \<and> dev v \<noteq> None then (0, [], 0) else (2, [], 0))
       | Some (l, n) \<Rightarrow> (1, l, n)),
      (case post v of None \<Rightarrow> (0, 0) | Some n \<Rightarrow> (1, n)),
      (case dev v of None \<Rightarrow> (1, 0) | Some n \<Rightarrow> (0, n)),
      (case local_segment v of
         None \<Rightarrow> (0, [])
       | Some segs \<Rightarrow>
           (1, map (\<lambda>seg. case seg of Inl i \<Rightarrow> (1, i, []) | Inr s \<Rightarrow> (0, 0, s)) segs)))"

text \<open>\<^verbatim>\<open>str(version)\<close>.\<close>

definition str_version :: "version \<Rightarrow> string" where
  "str_version v =
     (if epoch v \<noteq> 0 then str_nat (epoch v) @ ''!'' else [])
     @ join ''.'' (map str_nat (release v))
     @ (case pre v of None \<Rightarrow> [] | Some (l, n) \<Rightarrow> l @ str_nat n)
     @ (case post v of None \<Rightarrow> [] | Some n \<Rightarrow> ''.post'' @ str_nat n)
     @ (case dev v of None \<Rightarrow> [] | Some n \<Rightarrow> ''.dev'' @ str_nat n)
     @ (case local_segment v of
          None \<Rightarrow> []
        | Some segs \<Rightarrow>
            ''+'' @ join ''.'' (map (\<lambda>seg. case seg of Inl i \<Rightarrow> str_nat i | Inr s \<Rightarrow> s) segs))"

subsection \<open>\<^verbatim>\<open>packaging.specifiers\<close>\<close>

text \<open>
  One clause of a specifier set has an operator and a version string. A
  \<^verbatim>\<open>SpecifierSet\<close> is a set of clauses; it is modelled as the list of its (distinct)
  clauses, so that \<^verbatim>\<open>len(specs)\<close> is the length and \<^verbatim>\<open>list(specs)[0]\<close> the head.
\<close>

record Specifier =
  operator :: string
  version_str :: string

text \<open>
  The parsers and the containment test of \<^verbatim>\<open>packaging\<close> are not part of this
  repository; the functions below take them as a parameter. \<open>None\<close> is the exception of
  the parser (\<^verbatim>\<open>InvalidVersion\<close>, \<^verbatim>\<open>InvalidSpecifier\<close>).
\<close>

record packaging =
  Version :: "string \<Rightarrow> version option"
  SpecifierSet :: "string \<Rightarrow> Specifier list option"
  contains :: "Specifier list \<Rightarrow> version \<Rightarrow> bool"

subsection \<open>\<^verbatim>\<open>ReleasePhase\<close> and \<^verbatim>\<open>PythonRelease\<close>\<close>

datatype ReleasePhase = FEATURE | PRERELEASE | BUGFIX | SECURITY | EOL

text \<open>The lookup of an enum member by its value, \<^verbatim>\<open>ReleasePhase(s)\<close>.\<close>

definition ReleasePhase_of :: "string \<Rightarrow> error + ReleasePhase" where
  "ReleasePhase_of s =
     (if s = ''feature'' then Inr FEATURE
      else if s = ''prerelease'' then Inr PRERELEASE
      else if s = ''bugfix'' then Inr BUGFIX
      else if s = ''security'' then Inr SECURITY
      else if s = ''end-of-life'' then Inr EOL
      else Inl ValueError)"

record PythonRelease =
  python_ver :: version
  status :: ReleasePhase
  end_of_life :: date

text \<open>
  The metadata of one release in the cached JSON: an object, here with string values.
  \<^verbatim>\<open>metadata[key]\<close> raises \<^verbatim>\<open>KeyError\<close> for a missing key.
\<close>

type_synonym metadata = "string \<rightharpoonup> string"

definition getitem :: "metadata \<Rightarrow> string \<Rightarrow> error + string" where
  "getitem m k = (case m k of None \<Rightarrow> Inl (KeyError k) | Some v \<Rightarrow> Inr v)"

text \<open>\<^verbatim>\<open>PythonRelease.from_json\<close>: the three arguments are evaluated in order.\<close>

definition from_json :: "packaging \<Rightarrow> string \<Rightarrow> metadata \<Rightarrow> error + PythonRelease" where
  "from_json pkg ver metadata =
     (case Version pkg ver of
        None \<Rightarrow> Inl InvalidVersion
      | Some v \<Rightarrow>
          (case getitem metadata ''status'' of
             Inl e \<Rightarrow> Inl e
           | Inr st \<Rightarrow>
               (case ReleasePhase_of st of
                  Inl e \<Rightarrow> Inl e
                | Inr phase \<Rightarrow>
                    (case getitem metadata ''end_of_life'' of
                       Inl e \<Rightarrow> Inl e
                     | Inr ds \<Rightarrow>
                         (case parse_eol_date ds of
                            Inl e \<Rightarrow> Inl e
                          | Inr d \<Rightarrow>
                              Inr \<lparr>python_ver = v, status = phase, end_of_life = d\<rparr>)))))"

text \<open>
  \<^verbatim>\<open>PythonRelease.is_eol\<close>. The current UTC date, which the method reads from the
  clock, is the argument \<open>utc_today\<close>.
\<close>

definition is_eol :: "PythonRelease \<Rightarrow> bool \<Rightarrow> date \<Rightarrow> bool" where
  "is_eol self use_system_date utc_today =
     (if status self = EOL then True
      else if use_system_date \<and> date_le (end_of_life self) utc_today then True
      else False)"

subsection \<open>\<^verbatim>\<open>_get_cached_release_cycle\<close>\<close>

text \<open>
  The cached JSON, once read, is a dictionary from version strings to metadata; its
  items are a list of pairs, in the order of the file. The generator builds one release
  per item and stops at the first exception.
\<close>

type_synonym release_cycle_json = "(string \<times> metadata) list"

fun from_json_items :: "packaging \<Rightarrow> release_cycle_json \<Rightarrow> error + PythonRelease list" where
  "from_json_items pkg [] = Inr []"
| "from_json_items pkg ((v, m) # items) =
     (case from_json pkg v m of
        Inl e \<Rightarrow> Inl e
      | Inr r \<Rightarrow>
          (case from_json_items pkg items of
             Inl e \<Rightarrow> Inl e
           | Inr rs \<Rightarrow> Inr (r # rs)))"

definition ver_key :: "PythonRelease \<Rightarrow> cmpkey" where
  "ver_key r = cmpkey (python_ver r)"

text \<open>
  \<^verbatim>\<open>sorted(xs, key=k)\<close> is a stable ascending sort, which is \<^const>\<open>sort_key\<close>. With
  \<^verbatim>\<open>reverse=True\<close> Python reverses the list, sorts it stably and reverses the result,
  so that equal elements keep their order.
\<close>

definition sorted_reverse :: "('a \<Rightarrow> 'k::linorder) \<Rightarrow> 'a list \<Rightarrow> 'a list" where
  "sorted_reverse k xs = rev (sort_key k (rev xs))"

definition get_cached_release_cycle ::
  "packaging \<Rightarrow> release_cycle_json \<Rightarrow> error + PythonRelease list" where
  "get_cached_release_cycle pkg contents =
     (case from_json_items pkg contents of
        Inl e \<Rightarrow> Inl e
      | Inr rs \<Rightarrow> Inr (sorted_reverse ver_key rs))"

subsection \<open>\<^verbatim>\<open>get_fixed_spec\<close>\<close>

text \<open>\<^verbatim>\<open>eol_supported[-1]\<close> raises \<^verbatim>\<open>IndexError\<close> on the empty list.\<close>

definition get_fixed_spec :: "Specifier list \<Rightarrow> PythonRelease list \<Rightarrow> error + string" where
  "get_fixed_spec specs eol_supported =
     (if \<not> length specs = 1 then Inl UnsupportedFixError
      else
        let spec = specs ! 0 in
        if \<not> operator spec = ''>='' then Inl UnsupportedFixError
        else if eol_supported = [] then Inl IndexError
        else
          let cutoff = python_ver (last eol_supported);
              new_minimum = str_nat (major cutoff) @ ''.'' @ str_nat (minor cutoff + 1)
          in Inr (''>='' @ new_minimum))"

subsection \<open>\<^verbatim>\<open>check_python_support\<close>\<close>

text \<open>
  A parsed TOML document is a map from table names to tables, a table a map from keys to
  (string) values. The file system is a map from paths to documents; reading a path that
  is not there raises \<^verbatim>\<open>FileNotFoundError\<close>.
\<close>

type_synonym toml = "string \<rightharpoonup> (string \<rightharpoonup> string)"

type_synonym file_system = "string \<rightharpoonup> toml"

text \<open>\<^verbatim>\<open>contents.get("project", {}).get("requires-python", None)\<close>\<close>

definition get_requires_python :: "toml \<Rightarrow> string option" where
  "get_requires_python contents =
     (case contents ''project'' of
        None \<Rightarrow> None
      | Some project \<Rightarrow> project ''requires-python'')"

text \<open>\<^verbatim>\<open>contents["project"]["requires-python"] = new_spec\<close>\<close>

definition set_requires_python :: "toml \<Rightarrow> string \<Rightarrow> error + toml" where
  "set_requires_python contents new_spec =
     (case contents ''project'' of
        None \<Rightarrow> Inl (KeyError ''project'')
      | Some project \<Rightarrow>
          Inr (contents(''project'' \<mapsto> project(''requires-python'' \<mapsto> new_spec))))"

definition eol_message :: "PythonRelease list \<Rightarrow> string" where
  "eol_message eol_supported =
     ''EOL Python support found: ''
       @ join '', '' (map (\<lambda>r. str_version (python_ver r)) eol_supported)"

text \<open>
  The function returns the file system it leaves behind and either the exception it
  raises or \<^verbatim>\<open>None\<close>. \<open>cache_json\<close> is the content of the cache file.
\<close>

definition check_python_support ::
  "packaging \<Rightarrow> file_system \<Rightarrow> string \<Rightarrow> release_cycle_json \<Rightarrow> bool \<Rightarrow> bool \<Rightarrow> date
     \<Rightarrow> file_system \<times> (error + unit)" where
  "check_python_support pkg fs toml_file cache_json use_system_date fix utc_today =
     (case fs toml_file of
        None \<Rightarrow> (fs, Inl FileNotFoundError)
      | Some contents \<Rightarrow>
          (case get_requires_python contents of
             None \<Rightarrow> (fs, Inl RequiresPythonNotFoundError)
           | Some requires_python \<Rightarrow>
               if requires_python = [] then (fs, Inl RequiresPythonNotFoundError)
               else
                 (case SpecifierSet pkg requires_python of
                    None \<Rightarrow> (fs, Inl InvalidSpecifier)
                  | Some package_spec \<Rightarrow>
                      (case get_cached_release_cycle pkg cache_json of
                         Inl e \<Rightarrow> (fs, Inl e)
                       | Inr release_cycle \<Rightarrow>
                           let eol_supported =
                                 filter (\<lambda>r. contains pkg package_spec (python_ver r)
                                              \<and> is_eol r use_system_date utc_today)
                                   release_cycle
                           in
                           if eol_supported = [] then (fs, Inr ())
                           else
                             let eol_supported = sort_key ver_key eol_supported in
                             if fix then
                               (case get_fixed_spec package_spec eol_supported of
                                  Inl e \<Rightarrow> (fs, Inl e)
                                | Inr new_spec \<Rightarrow>
                                    (case set_requires_python contents new_spec of
                                       Inl e \<Rightarrow> (fs, Inl e)
                                     | Inr contents' \<Rightarrow>
                                         (fs(toml_file \<mapsto> contents'),
                                          Inl (EOLPythonError (eol_message eol_supported)))))
                             else (fs, Inl (EOLPythonError (eol_message eol_supported)))))))"

text \<open>
  The list \<^verbatim>\<open>eol_supported\<close> of \<^verbatim>\<open>check_python_support\<close> as the function leaves it:
  the comprehension, sorted ascending unless it is empty.
\<close>

definition eol_overlap ::
  "packaging \<Rightarrow> Specifier list \<Rightarrow> PythonRelease list \<Rightarrow> bool \<Rightarrow> date \<Rightarrow> PythonRelease list" where
  "eol_overlap pkg package_spec release_cycle use_system_date utc_today =
     (let eol_supported =
            filter (\<lambda>r. contains pkg package_spec (python_ver r)
                         \<and> is_eol r use_system_date utc_today)
              release_cycle
      in if eol_supported = [] then eol_supported else sort_key ver_key eol_supported)"

subsection \<open>\<^verbatim>\<open>main\<close>\<close>

text \<open>
  The state of a run: the file system and the lines printed. The arguments are the
  parsed command line. An exception that no handler of the loop catches leaves
  \<^verbatim>\<open>main\<close>, and with it the loop.
\<close>

record world =
  files :: file_system
  stdout :: "string list"

fun main_loop ::
  "packaging \<Rightarrow> release_cycle_json \<Rightarrow> date \<Rightarrow> bool \<Rightarrow> bool \<Rightarrow> string list \<Rightarrow> world \<Rightarrow> int
     \<Rightarrow> world \<times> (error + int)" where
  "main_loop pkg cache_json utc_today cache_only fix [] w ec = (w, Inr ec)"
| "main_loop pkg cache_json utc_today cache_only fix (file # filenames) w ec =
     (case check_python_support pkg (files w) file cache_json (\<not> cache_only) fix utc_today of
        (fs, Inr u) \<Rightarrow>
          main_loop pkg cache_json utc_today cache_only fix filenames (w\<lparr>files := fs\<rparr>) ec
      | (fs, Inl (EOLPythonError e)) \<Rightarrow>
          main_loop pkg cache_json utc_today cache_only fix filenames
            (w\<lparr>files := fs, stdout := stdout w @ [file @ '': '' @ e]\<rparr>) 1
      | (fs, Inl RequiresPythonNotFoundError) \<Rightarrow>
          main_loop pkg cache_json utc_today cache_only fix filenames
            (w\<lparr>files := fs,
               stdout := stdout w
                 @ [file @ '' 'requires-python' could not be located, or it is empty.'']\<rparr>) 1
      | (fs, Inl e) \<Rightarrow> (w\<lparr>files := fs\<rparr>, Inl e))"

definition main ::
  "packaging \<Rightarrow> release_cycle_json \<Rightarrow> date \<Rightarrow> string list \<Rightarrow> bool \<Rightarrow> bool \<Rightarrow> world
     \<Rightarrow> world \<times> (error + int)" where
  "main pkg cache_json utc_today filenames cache_only fix w =
     main_loop pkg cache_json utc_today cache_only fix filenames w 0"

subsection \<open>An instance of the library on release-only versions\<close>

text \<open>
  To run the functions on concrete inputs, the library is instantiated on the versions
  the release cycle uses: dotted numbers such as \<^verbatim>\<open>3.8\<close> or \<^verbatim>\<open>3.8.0\<close>, and
  comma-separated clauses with one of the comparison operators in front of such a
  version. On these inputs the instance does what \<^verbatim>\<open>packaging\<close> does; every other
  string is refused here, though \<^verbatim>\<open>packaging\<close> accepts more of them.
\<close>

definition release_only :: "nat list \<Rightarrow> version" where
  "release_only rel =
     \<lparr>epoch = 0, release = rel, pre = None, post = None, dev = None, local_segment = None\<rparr>"

definition Version_release_only :: "string \<Rightarrow> version option" where
  "Version_release_only s =
     (let parts = str_split (CHR ''.'') s in
      if \<forall>p \<in> set parts. p \<noteq> [] \<and> (\<forall>c \<in> set p. is_digit c)
      then Some (release_only (map digits_to_nat parts))
      else None)"

fun split_operator :: "string list \<Rightarrow> string \<Rightarrow> (string \<times> string) option" where
  "split_operator [] s = None"
| "split_operator (op # ops) s =
     (if take (length op) s = op then Some (op, strip (drop (length op) s))
      else split_operator ops s)"

definition Specifier_release_only :: "string \<Rightarrow> Specifier option" where
  "Specifier_release_only s =
     (case split_operator [''>='', ''<='', ''=='', ''!='', ''<'', ''>''] (strip s) of
        None \<Rightarrow> None
      | Some (op, v) \<Rightarrow>
          (case Version_release_only v of
             None \<Rightarrow> None
           | Some _ \<Rightarrow> Some \<lparr>operator = op, version_str = v\<rparr>))"

text \<open>Two clauses are the same member of the set when operator and version agree.\<close>

definition canonical_spec :: "Specifier \<Rightarrow> string \<times> cmpkey option" where
  "canonical_spec sp = (operator sp, map_option cmpkey (Version_release_only (version_str sp)))"

fun distinct_specs :: "Specifier list \<Rightarrow> Specifier list" where
  "distinct_specs [] = []"
| "distinct_specs (sp # sps) =
     sp # distinct_specs (filter (\<lambda>sp'. canonical_spec sp' \<noteq> canonical_spec sp) sps)"

fun those_specs :: "Specifier option list \<Rightarrow> Specifier list option" where
  "those_specs [] = Some []"
| "those_specs (None # xs) = None"
| "those_specs (Some sp # xs) = map_option ((#) sp) (those_specs xs)"

definition SpecifierSet_release_only :: "string \<Rightarrow> Specifier list option" where
  "SpecifierSet_release_only s =
     map_option distinct_specs
       (those_specs
          (map Specifier_release_only
             (filter (\<lambda>c. strip c \<noteq> []) (str_split (CHR '','') s))))"

definition satisfies :: "Specifier \<Rightarrow> version \<Rightarrow> bool" where
  "satisfies sp v =
     (case Version_release_only (version_str sp) of
        None \<Rightarrow> False
      | Some sv \<Rightarrow>
          if operator sp = ''>='' then cmpkey sv \<le> cmpkey v
          else if operator sp = ''<='' then cmpkey v \<le> cmpkey sv
          else if operator sp = ''=='' then cmpkey v = cmpkey sv
          else if operator sp = ''!='' then cmpkey v \<noteq> cmpkey sv
          else if operator sp = ''<'' then cmpkey v < cmpkey sv
          else if operator sp = ''>'' then cmpkey sv < cmpkey v
          else False)"

definition contains_release_only :: "Specifier list \<Rightarrow> version \<Rightarrow> bool" where
  "contains_release_only specs v = list_all (\<lambda>sp. satisfies sp v) specs"

definition packaging_release_only :: packaging where
  "packaging_release_only =
     \<lparr>Version = Version_release_only,
      SpecifierSet = SpecifierSet_release_only,
      contains = contains_release_only\<rparr>"

subsection \<open>Example data\<close>

text \<open>A release with a release-only version, and the metadata of a cache entry.\<close>

definition py :: "nat list \<Rightarrow> ReleasePhase \<Rightarrow> nat \<Rightarrow> nat \<Rightarrow> nat \<Rightarrow> PythonRelease" where
  "py rel phase y m d =
     \<lparr>python_ver = release_only rel, status = phase,
      end_of_life = \<lparr>year = y, month = m, day = d\<rparr>\<rparr>"

definition md :: "string \<Rightarrow> string \<Rightarrow> metadata" where
  "md st d = [''status'' \<mapsto> st, ''end_of_life'' \<mapsto> d]"

definition example_cache :: release_cycle_json where
  "example_cache =
     [(''3.10'', md ''security'' ''2026-10''),
      (''3.9'', md ''end-of-life'' ''2025-10''),
      (''3.8'', md ''end-of-life'' ''2024-10-07''),
      (''3.11'', md ''bugfix'' ''2027-10'')]"

definition example_today :: date where
  "example_today = \<lparr>year = 2026, month = 11, day = 3\<rparr>"

definition pyproject :: "string \<Rightarrow> toml" where
  "pyproject requires_python = [''project'' \<mapsto> [''requires-python'' \<mapsto> requires_python]]"

definition example_fs :: file_system where
  "example_fs =
     [''a.toml'' \<mapsto> pyproject ''>=3.8,<4.0'',
      ''b.toml'' \<mapsto> pyproject ''>=3.8'']"

subsection \<open>The date shapes of the specification\<close>



subsection \<open>Well-formed cache entries\<close>

text \<open>
  The specification calls an entry malformed when its phase is not in the vocabulary of
  \<^verbatim>\<open>ReleasePhase\<close> or its date does not parse; \<open>phase_and_date_ok\<close> follows these
  words. \<open>well_formed_entry\<close> asks for a version string that parses as well.
\<close>

definition phase_and_date_ok :: "metadata \<Rightarrow> bool" where
  "phase_and_date_ok m =
     ((case m ''status'' of
         None \<Rightarrow> False
       | Some st \<Rightarrow>
           st \<in> set [''feature'', ''prerelease'', ''bugfix'', ''security'', ''end-of-life''])
      \<and> (case m ''end_of_life'' of
            None \<Rightarrow> False
          | Some ds \<Rightarrow> (case parse_eol_date ds of Inl e \<Rightarrow> False | Inr d \<Rightarrow> True)))"

definition well_formed_entry :: "packaging \<Rightarrow> string \<times> metadata \<Rightarrow> bool" where
  "well_formed_entry pkg entry =
     (Version pkg (fst entry) \<noteq> None \<and> phase_and_date_ok (snd entry))"

section \<open>Properties\<close>

subsection \<open>Auxiliary facts\<close>

lemma sorted_le_last: "sorted xs \<Longrightarrow> x \<in> set xs \<Longrightarrow> x \<le> last xs"
  by (induction xs) auto

lemma sort_key_eq_Nil: "sort_key f xs = [] \<longleftrightarrow> xs = []"
  by (metis length_0_conv length_sort)

lemma str_nat_3: "str_nat 3 = ''3''"
  by code_simp

lemma str_nat_9: "str_nat 9 = ''9''"
  by code_simp

lemma str_nat_10: "str_nat 10 = ''10''"
  by code_simp

lemma ver_key_release_only:
  "ver_key (py rel phase y m d) = (0, strip_trailing_zeros rel, (2, [], 0), (0, 0), (1, 0), (0, []))"
  by (simp add: ver_key_def cmpkey_def py_def release_only_def)

lemma python_ver_py: "python_ver (py rel phase y m d) = release_only rel"
  by (simp add: py_def)

lemma major_minor_release_only:
  "major (release_only [a, b]) = a" "minor (release_only [a, b]) = b"
  by (simp_all add: major_def minor_def release_only_def)

subsection \<open>The end-of-life policy\<close>

text \<open>
  Claim C1. A release whose phase is end-of-life is EOL, whatever the flag and the stored
  date. Any other release is EOL with the flag set exactly when its end-of-life date is
  not after the current UTC date, and never without the flag. Dates are compared by
  year, month and day.
\<close>

theorem is_eol_policy:
  "(status r = EOL \<longrightarrow> is_eol r use_current_date utc_today)
   \<and> (status r \<noteq> EOL \<longrightarrow> is_eol r True utc_today = date_le (end_of_life r) utc_today)
   \<and> (status r \<noteq> EOL \<longrightarrow> \<not> is_eol r False utc_today)
   \<and> (date_le d utc_today \<longleftrightarrow>
        year d < year utc_today
        \<or> (year d = year utc_today
            \<and> (month d < month utc_today
                \<or> (month d = month utc_today \<and> day d \<le> day utc_today))))"
  by (auto simp add: is_eol_def date_le_def)

theorem is_eol_policy_witness:
  "is_eol (py [2, 7] EOL 2030 1 1) False example_today
   \<and> is_eol (py [3, 10] SECURITY 2026 11 3) True example_today
   \<and> \<not> is_eol (py [3, 10] SECURITY 2026 11 4) True example_today
   \<and> \<not> is_eol (py [3, 10] SECURITY 2020 1 1) False example_today"
  using is_eol_policy [of "py [2, 7] EOL 2030 1 1" False example_today]
    is_eol_policy [of "py [3, 10] SECURITY 2026 11 3" _ example_today
      "\<lparr>year = 2026, month = 11, day = 3\<rparr>"]
    is_eol_policy [of "py [3, 10] SECURITY 2026 11 4" _ example_today
      "\<lparr>year = 2026, month = 11, day = 4\<rparr>"]
    is_eol_policy [of "py [3, 10] SECURITY 2020 1 1" _ example_today]
  by (simp add: py_def example_today_def)

subsection \<open>The repaired specifier\<close>

text \<open>
  Claim C2. For a specifier set of exactly one clause with the operator \<^verbatim>\<open>>=\<close> and a
  non-empty ascending list of EOL releases, \<^verbatim>\<open>get_fixed_spec\<close> returns \<^verbatim>\<open>>=M.(N+1)\<close>,
  with M and N the major and minor numbers of the last release of the list, which is
  the highest one. For \<^verbatim>\<open>>=3.8\<close> and the releases 3.8 and 3.9 this is \<^verbatim>\<open>>=3.10\<close>.
\<close>

theorem get_fixed_spec_single_ge:
  assumes "length specs = 1" and "operator (specs ! 0) = ''>=''"
    and "eol_supported \<noteq> []" and "sorted (map ver_key eol_supported)"
  shows "get_fixed_spec specs eol_supported =
           Inr (''>='' @ str_nat (major (python_ver (last eol_supported))) @ ''.''
                  @ str_nat (minor (python_ver (last eol_supported)) + 1))
         \<and> (\<forall>r \<in> set eol_supported. ver_key r \<le> ver_key (last eol_supported))"
proof
  show "get_fixed_spec specs eol_supported =
           Inr (''>='' @ str_nat (major (python_ver (last eol_supported))) @ ''.''
                  @ str_nat (minor (python_ver (last eol_supported)) + 1))"
    using assms(1-3) by (simp add: get_fixed_spec_def Let_def)
next
  show "\<forall>r \<in> set eol_supported. ver_key r \<le> ver_key (last eol_supported)"
  proof
    fix r
    assume "r \<in> set eol_supported"
    then have "ver_key r \<in> set (map ver_key eol_supported)"
      by simp
    then have "ver_key r \<le> last (map ver_key eol_supported)"
      using assms(4) by (rule sorted_le_last [rotated])
    then show "ver_key r \<le> ver_key (last eol_supported)"
      using assms(3) by (simp add: last_map)
  qed
qed

theorem get_fixed_spec_single_ge_witness:
  "get_fixed_spec [\<lparr>operator = ''>='', version_str = ''3.8''\<rparr>]
     [py [3, 8] EOL 2024 10 7, py [3, 9] EOL 2025 10 31] = Inr ''>=3.10''
   \<and> ver_key (py [3, 8] EOL 2024 10 7) \<le> ver_key (py [3, 9] EOL 2025 10 31)"
proof -
  have srt: "sorted (map ver_key [py [3, 8] EOL 2024 10 7, py [3, 9] EOL 2025 10 31])"
    by (simp add: ver_key_release_only strip_trailing_zeros_def)
  show ?thesis
    using get_fixed_spec_single_ge
      [of "[\<lparr>operator = ''>='', version_str = ''3.8''\<rparr>]"
          "[py [3, 8] EOL 2024 10 7, py [3, 9] EOL 2025 10 31]", OF _ _ _ srt]
    by (simp add: python_ver_py major_minor_release_only str_nat_3 str_nat_10)
qed

text \<open>
  Claim C3. On a non-empty list of EOL releases, \<^verbatim>\<open>get_fixed_spec\<close> raises
  \<^verbatim>\<open>UnsupportedFixError\<close> exactly when the specifier set is not one clause with the
  operator \<^verbatim>\<open>>=\<close>; so it does for \<^verbatim>\<open>>=3.8,<4.0\<close> and for \<^verbatim>\<open>==3.8\<close>.
\<close>

theorem get_fixed_spec_unsupported_iff:
  assumes "eol_supported \<noteq> []"
  shows "get_fixed_spec specs eol_supported = Inl UnsupportedFixError
         \<longleftrightarrow> \<not> (length specs = 1 \<and> operator (specs ! 0) = ''>='')"
  using assms by (simp add: get_fixed_spec_def Let_def)

theorem get_fixed_spec_unsupported_iff_witness:
  "get_fixed_spec
     [\<lparr>operator = ''>='', version_str = ''3.8''\<rparr>, \<lparr>operator = ''<'', version_str = ''4.0''\<rparr>]
     [py [3, 8] EOL 2024 10 7] = Inl UnsupportedFixError
   \<and> get_fixed_spec [\<lparr>operator = ''=='', version_str = ''3.8''\<rparr>]
       [py [3, 8] EOL 2024 10 7] = Inl UnsupportedFixError
   \<and> get_fixed_spec [\<lparr>operator = ''>='', version_str = ''3.8''\<rparr>]
       [py [3, 8] EOL 2024 10 7] \<noteq> Inl UnsupportedFixError"
  using get_fixed_spec_unsupported_iff
      [of "[py [3, 8] EOL 2024 10 7]"
          "[\<lparr>operator = ''>='', version_str = ''3.8''\<rparr>, \<lparr>operator = ''<'', version_str = ''4.0''\<rparr>]"]
    get_fixed_spec_unsupported_iff
      [of "[py [3, 8] EOL 2024 10 7]" "[\<lparr>operator = ''=='', version_str = ''3.8''\<rparr>]"]
    get_fixed_spec_unsupported_iff
      [of "[py [3, 8] EOL 2024 10 7]" "[\<lparr>operator = ''>='', version_str = ''3.8''\<rparr>]"]
  by simp

subsection \<open>The overlap with the EOL releases\<close>

lemma eol_overlap_sort:
  "eol_overlap pkg specs rc usd today =
     sort_key ver_key (filter (\<lambda>r. contains pkg specs (python_ver r) \<and> is_eol r usd today) rc)"
  by (simp add: eol_overlap_def Let_def)

text \<open>
  Once the manifest, its specifier and the cache are read, \<^verbatim>\<open>check_python_support\<close>
  depends on the release cycle through \<^const>\<open>eol_overlap\<close> only.
\<close>

lemma check_python_support_loaded:
  assumes "fs toml_file = Some contents"
    and "get_requires_python contents = Some requires_python"
    and "requires_python \<noteq> []"
    and "SpecifierSet pkg requires_python = Some package_spec"
    and "get_cached_release_cycle pkg cache_json = Inr release_cycle"
  shows "check_python_support pkg fs toml_file cache_json use_system_date fix utc_today =
     (let eol_supported = eol_overlap pkg package_spec release_cycle use_system_date utc_today in
      if eol_supported = [] then (fs, Inr ())
      else if fix then
        (case get_fixed_spec package_spec eol_supported of
           Inl e \<Rightarrow> (fs, Inl e)
         | Inr new_spec \<Rightarrow>
             (case set_requires_python contents new_spec of
                Inl e \<Rightarrow> (fs, Inl e)
              | Inr contents' \<Rightarrow>
                  (fs(toml_file \<mapsto> contents'),
                   Inl (EOLPythonError (eol_message eol_supported)))))
      else (fs, Inl (EOLPythonError (eol_message eol_supported))))"
  unfolding check_python_support_def eol_overlap_sort Let_def
  by (simp only: assms option.case sum.case if_False sort_key_eq_Nil)

text \<open>
  Claim C4. The overlap holds exactly the releases of the release cycle whose version is
  contained in the specifier set and which are EOL by \<^const>\<open>is_eol\<close>, each as often as
  the release cycle has it; it is sorted ascending by version; and it is empty exactly
  when no contained release is EOL.
\<close>

theorem eol_overlap_correct:
  "mset (eol_overlap pkg specs rc usd today) =
     filter_mset (\<lambda>r. contains pkg specs (python_ver r) \<and> is_eol r usd today) (mset rc)
   \<and> set (eol_overlap pkg specs rc usd today) =
       {r \<in> set rc. contains pkg specs (python_ver r) \<and> is_eol r usd today}
   \<and> sorted (map ver_key (eol_overlap pkg specs rc usd today))
   \<and> (eol_overlap pkg specs rc usd today = []
        \<longleftrightarrow> \<not> (\<exists>r \<in> set rc. contains pkg specs (python_ver r) \<and> is_eol r usd today))"
proof (intro conjI)
  show "mset (eol_overlap pkg specs rc usd today) =
     filter_mset (\<lambda>r. contains pkg specs (python_ver r) \<and> is_eol r usd today) (mset rc)"
    by (simp add: eol_overlap_sort)
  show "set (eol_overlap pkg specs rc usd today) =
       {r \<in> set rc. contains pkg specs (python_ver r) \<and> is_eol r usd today}"
    by (simp add: eol_overlap_sort)
  show "sorted (map ver_key (eol_overlap pkg specs rc usd today))"
    by (simp add: eol_overlap_sort)
  show "eol_overlap pkg specs rc usd today = []
        \<longleftrightarrow> \<not> (\<exists>r \<in> set rc. contains pkg specs (python_ver r) \<and> is_eol r usd today)"
    by (simp add: eol_overlap_sort sort_key_eq_Nil filter_empty_conv)
qed

lemma example_overlap:
  "eol_overlap packaging_release_only [\<lparr>operator = ''>='', version_str = ''3.8''\<rparr>]
     [py [3, 11] BUGFIX 2027 10 1, py [3, 10] SECURITY 2026 10 1,
      py [3, 9] EOL 2025 10 1, py [3, 8] EOL 2024 10 7, py [3, 7] EOL 2023 6 27]
     False example_today
   = [py [3, 8] EOL 2024 10 7, py [3, 9] EOL 2025 10 1]"
  by code_simp

theorem eol_overlap_correct_witness:
  "eol_overlap packaging_release_only [\<lparr>operator = ''>='', version_str = ''3.8''\<rparr>]
     [py [3, 11] BUGFIX 2027 10 1, py [3, 10] SECURITY 2026 10 1,
      py [3, 9] EOL 2025 10 1, py [3, 8] EOL 2024 10 7, py [3, 7] EOL 2023 6 27]
     False example_today
   = [py [3, 8] EOL 2024 10 7, py [3, 9] EOL 2025 10 1]
   \<and> sorted (map ver_key [py [3, 8] EOL 2024 10 7, py [3, 9] EOL 2025 10 1])
   \<and> (\<exists>r \<in> set [py [3, 11] BUGFIX 2027 10 1, py [3, 10] SECURITY 2026 10 1,
                  py [3, 9] EOL 2025 10 1, py [3, 8] EOL 2024 10 7, py [3, 7] EOL 2023 6 27].
         contains packaging_release_only [\<lparr>operator = ''>='', version_str = ''3.8''\<rparr>]
           (python_ver r)
         \<and> is_eol r False example_today)"
  using eol_overlap_correct
    [of packaging_release_only "[\<lparr>operator = ''>='', version_str = ''3.8''\<rparr>]"
        "[py [3, 11] BUGFIX 2027 10 1, py [3, 10] SECURITY 2026 10 1,
          py [3, 9] EOL 2025 10 1, py [3, 8] EOL 2024 10 7, py [3, 7] EOL 2023 6 27]"
        False example_today]
  unfolding example_overlap by blast

subsection \<open>No index error in the repair\<close>

lemma dt_date_not_IndexError: "dt_date y m d \<noteq> Inl IndexError"
  by (simp add: dt_date_def)

lemma fromisoformat_not_IndexError: "fromisoformat s \<noteq> Inl IndexError"
  by (simp add: fromisoformat_def dt_date_not_IndexError split: option.splits prod.splits)

lemma parse_eol_date_not_IndexError: "parse_eol_date s \<noteq> Inl IndexError"
  by (simp add: parse_eol_date_def Let_def fromisoformat_not_IndexError dt_date_not_IndexError
      split: option.splits)

lemma from_json_not_IndexError: "from_json pkg v m \<noteq> Inl IndexError"
proof
  assume a: "from_json pkg v m = Inl IndexError"
  then have "\<exists>ds. parse_eol_date ds = Inl IndexError"
    by (auto simp add: from_json_def getitem_def ReleasePhase_of_def
        split: option.splits sum.splits if_splits)
  then show False
    by (simp add: parse_eol_date_not_IndexError)
qed

lemma from_json_items_not_IndexError: "from_json_items pkg items \<noteq> Inl IndexError"
proof (induction pkg items rule: from_json_items.induct)
  case (1 pkg)
  show ?case by simp
next
  case (2 pkg v m items)
  then show ?case
    using from_json_not_IndexError [of pkg v m] by (auto split: sum.splits)
qed

lemma get_cached_release_cycle_not_IndexError:
  "get_cached_release_cycle pkg contents \<noteq> Inl IndexError"
  using from_json_items_not_IndexError [of pkg contents]
  by (auto simp add: get_cached_release_cycle_def split: sum.splits)

lemma get_fixed_spec_IndexError_iff:
  "get_fixed_spec specs eol_supported = Inl IndexError
   \<longleftrightarrow> length specs = 1 \<and> operator (specs ! 0) = ''>='' \<and> eol_supported = []"
  by (simp add: get_fixed_spec_def Let_def)

lemma check_python_support_not_IndexError:
  "snd (check_python_support pkg fs toml_file cache_json usd fix today) \<noteq> Inl IndexError"
proof (cases "fs toml_file")
  case None
  then show ?thesis by (simp add: check_python_support_def)
next
  case (Some contents)
  note c = this
  show ?thesis
  proof (cases "get_requires_python contents")
    case None
    with c show ?thesis by (simp add: check_python_support_def)
  next
    case (Some rp)
    note rp = this
    show ?thesis
    proof (cases "rp = []")
      case True
      with c rp show ?thesis by (simp add: check_python_support_def)
    next
      case False
      note ne = this
      show ?thesis
      proof (cases "SpecifierSet pkg rp")
        case None
        with c rp ne show ?thesis by (simp add: check_python_support_def)
      next
        case (Some specs)
        note sp = this
        show ?thesis
        proof (cases "get_cached_release_cycle pkg cache_json")
          case (Inl e)
          then have "e \<noteq> IndexError"
            using get_cached_release_cycle_not_IndexError [of pkg cache_json] by auto
          with c rp ne sp Inl show ?thesis by (simp add: check_python_support_def)
        next
          case (Inr rc)
          show ?thesis
            unfolding check_python_support_loaded
                [where fs = fs and toml_file = toml_file, OF c rp ne sp Inr]
            by (auto simp add: Let_def get_fixed_spec_IndexError_iff set_requires_python_def
                split: sum.splits option.splits)
        qed
      qed
    qed
  qed
qed

text \<open>
  Claim C10. \<^verbatim>\<open>get_fixed_spec\<close> reads \<^verbatim>\<open>eol_supported[-1]\<close> without a guard. On a
  non-empty list the read is in bounds: the function raises no \<^verbatim>\<open>IndexError\<close>, it
  returns a specifier or raises \<^verbatim>\<open>UnsupportedFixError\<close>. \<^verbatim>\<open>check_python_support\<close>
  returns before the repair when the list is empty, so it never raises \<^verbatim>\<open>IndexError\<close>.
\<close>

theorem get_fixed_spec_total:
  "(eol_supported \<noteq> [] \<longrightarrow>
      get_fixed_spec specs eol_supported \<noteq> Inl IndexError
      \<and> (get_fixed_spec specs eol_supported = Inl UnsupportedFixError
          \<or> (\<exists>new_spec. get_fixed_spec specs eol_supported = Inr new_spec)))
   \<and> snd (check_python_support pkg fs toml_file cache_json use_system_date fix utc_today)
       \<noteq> Inl IndexError"
proof (intro conjI impI)
  assume "eol_supported \<noteq> []"
  then show "get_fixed_spec specs eol_supported \<noteq> Inl IndexError"
    by (simp add: get_fixed_spec_IndexError_iff)
next
  assume "eol_supported \<noteq> []"
  then show "get_fixed_spec specs eol_supported = Inl UnsupportedFixError
          \<or> (\<exists>new_spec. get_fixed_spec specs eol_supported = Inr new_spec)"
    by (simp add: get_fixed_spec_def Let_def)
next
  show "snd (check_python_support pkg fs toml_file cache_json use_system_date fix utc_today)
       \<noteq> Inl IndexError"
    by (rule check_python_support_not_IndexError)
qed

theorem get_fixed_spec_total_witness:
  "get_fixed_spec [\<lparr>operator = ''>='', version_str = ''3.8''\<rparr>] [py [3, 8] EOL 2024 10 7]
     \<noteq> Inl IndexError
   \<and> get_fixed_spec [\<lparr>operator = ''>='', version_str = ''3.8''\<rparr>] [py [3, 8] EOL 2024 10 7]
       = Inr ''>=3.9''
   \<and> get_fixed_spec [\<lparr>operator = ''>='', version_str = ''3.8''\<rparr>] [] = Inl IndexError
   \<and> snd (check_python_support packaging_release_only example_fs ''b.toml'' example_cache
            False True example_today) \<noteq> Inl IndexError"
proof -
  have a: "get_fixed_spec [\<lparr>operator = ''>='', version_str = ''3.8''\<rparr>] [py [3, 8] EOL 2024 10 7]
       = Inr ''>=3.9''"
    by (simp add: get_fixed_spec_def python_ver_py major_minor_release_only str_nat_3 str_nat_9)
  have b: "get_fixed_spec [\<lparr>operator = ''>='', version_str = ''3.8''\<rparr>] [] = Inl IndexError"
    by (simp add: get_fixed_spec_def)
  show ?thesis
    using get_fixed_spec_total
      [of "[py [3, 8] EOL 2024 10 7]" "[\<lparr>operator = ''>='', version_str = ''3.8''\<rparr>]"
          packaging_release_only example_fs "''b.toml''" example_cache False True example_today]
      a b
    by simp
qed

subsection \<open>Parsing the end-of-life date\<close>
















subsection \<open>Loading the release cycle\<close>

lemma ReleasePhase_of_Inr_iff:
  "(\<exists>ph. ReleasePhase_of st = Inr ph)
   \<longleftrightarrow> st \<in> set [''feature'', ''prerelease'', ''bugfix'', ''security'', ''end-of-life'']"
  by (simp add: ReleasePhase_of_def)

lemma from_json_Inr_iff:
  "(\<exists>r. from_json pkg v m = Inr r) \<longleftrightarrow> well_formed_entry pkg (v, m)"
proof -
  have "(\<exists>r. from_json pkg v m = Inr r) \<longleftrightarrow>
      Version pkg v \<noteq> None
      \<and> (\<exists>st. m ''status'' = Some st \<and> (\<exists>ph. ReleasePhase_of st = Inr ph))
      \<and> (\<exists>ds. m ''end_of_life'' = Some ds \<and> (\<exists>d. parse_eol_date ds = Inr d))"
    by (auto simp add: from_json_def getitem_def split: option.splits sum.splits)
  also have "\<dots> \<longleftrightarrow> well_formed_entry pkg (v, m)"
    unfolding ReleasePhase_of_Inr_iff
    by (auto simp add: well_formed_entry_def phase_and_date_ok_def
        split: option.splits sum.splits)
  finally show ?thesis .
qed

lemma from_json_items_Inr_iff:
  "(\<exists>rs. from_json_items pkg items = Inr rs) \<longleftrightarrow> list_all (well_formed_entry pkg) items"
proof (induction pkg items rule: from_json_items.induct)
  case (1 pkg)
  show ?case by simp
next
  case (2 pkg v m items)
  show ?case
    using "2.IH" from_json_Inr_iff [of pkg v m]
    by (cases "from_json pkg v m"; cases "from_json_items pkg items") auto
qed

lemma from_json_items_each:
  "from_json_items pkg items = Inr rs \<Longrightarrow>
   list_all2 (\<lambda>entry r. from_json pkg (fst entry) (snd entry) = Inr r) items rs"
proof (induction pkg items arbitrary: rs rule: from_json_items.induct)
  case (1 pkg)
  then show ?case by simp
next
  case (2 pkg v m items)
  then show ?case
    by (cases "from_json pkg v m"; cases "from_json_items pkg items") auto
qed

lemma list_all2_in_set1:
  "list_all2 P xs ys \<Longrightarrow> x \<in> set xs \<Longrightarrow> \<exists>y \<in> set ys. P x y"
  by (induction rule: list_all2_induct) auto

lemma mset_sorted_reverse: "mset (sorted_reverse k xs) = mset xs"
  by (simp add: sorted_reverse_def)

lemma get_cached_release_cycle_Inr:
  "get_cached_release_cycle pkg contents = Inr rs \<longleftrightarrow>
   (\<exists>rs0. from_json_items pkg contents = Inr rs0 \<and> rs = sorted_reverse ver_key rs0)"
  by (auto simp add: get_cached_release_cycle_def split: sum.splits)

text \<open>
  Claim C6, as amended. If the version string, the phase or the end-of-life date of any
  entry is missing or does not parse, the load fails as a whole with an exception and
  returns no release; otherwise it succeeds and returns one release for every entry.
\<close>

theorem get_cached_release_cycle_all_or_nothing:
  "(list_all (well_formed_entry pkg) contents \<longrightarrow>
      (\<exists>rs. get_cached_release_cycle pkg contents = Inr rs
            \<and> length rs = length contents
            \<and> (\<forall>entry \<in> set contents.
                  \<exists>r \<in> set rs. from_json pkg (fst entry) (snd entry) = Inr r)))
   \<and> (\<not> list_all (well_formed_entry pkg) contents \<longrightarrow>
        (\<exists>e. get_cached_release_cycle pkg contents = Inl e))"
proof (intro conjI impI)
  assume "list_all (well_formed_entry pkg) contents"
  then obtain rs0 where rs0: "from_json_items pkg contents = Inr rs0"
    using from_json_items_Inr_iff by blast
  have each: "list_all2 (\<lambda>entry r. from_json pkg (fst entry) (snd entry) = Inr r) contents rs0"
    using rs0 by (rule from_json_items_each)
  let ?rs = "sorted_reverse ver_key rs0"
  have "get_cached_release_cycle pkg contents = Inr ?rs"
    using rs0 by (simp add: get_cached_release_cycle_def)
  moreover have "length ?rs = length contents"
    using each by (simp add: sorted_reverse_def list_all2_lengthD)
  moreover have "\<forall>entry \<in> set contents.
      \<exists>r \<in> set ?rs. from_json pkg (fst entry) (snd entry) = Inr r"
  proof
    fix entry
    assume "entry \<in> set contents"
    then obtain r where "r \<in> set rs0" "from_json pkg (fst entry) (snd entry) = Inr r"
      using each list_all2_in_set1 by force
    moreover have "set ?rs = set rs0"
      by (simp add: sorted_reverse_def)
    ultimately show "\<exists>r \<in> set ?rs. from_json pkg (fst entry) (snd entry) = Inr r"
      by blast
  qed
  ultimately show "\<exists>rs. get_cached_release_cycle pkg contents = Inr rs
            \<and> length rs = length contents
            \<and> (\<forall>entry \<in> set contents.
                  \<exists>r \<in> set rs. from_json pkg (fst entry) (snd entry) = Inr r)"
    by blast
next
  assume "\<not> list_all (well_formed_entry pkg) contents"
  then have "\<nexists>rs0. from_json_items pkg contents = Inr rs0"
    using from_json_items_Inr_iff by blast
  then obtain e where "from_json_items pkg contents = Inl e"
    by (cases "from_json_items pkg contents") auto
  then show "\<exists>e. get_cached_release_cycle pkg contents = Inl e"
    by (simp add: get_cached_release_cycle_def)
qed

lemma example_cache_loads:
  "get_cached_release_cycle packaging_release_only example_cache =
     Inr [py [3, 11] BUGFIX 2027 10 1, py [3, 10] SECURITY 2026 10 1,
          py [3, 9] EOL 2025 10 1, py [3, 8] EOL 2024 10 7]"
  by code_simp

lemma example_cache_well_formed:
  "list_all (well_formed_entry packaging_release_only) example_cache"
  by code_simp

lemma unknown_phase_not_well_formed:
  "\<not> list_all (well_formed_entry packaging_release_only)
       [(''3.9'', md ''end-of-life'' ''2025-10''), (''3.8'', md ''retired'' ''2024-10'')]"
  by code_simp

theorem get_cached_release_cycle_all_or_nothing_witness:
  "list_all (well_formed_entry packaging_release_only) example_cache
   \<and> get_cached_release_cycle packaging_release_only example_cache =
       Inr [py [3, 11] BUGFIX 2027 10 1, py [3, 10] SECURITY 2026 10 1,
            py [3, 9] EOL 2025 10 1, py [3, 8] EOL 2024 10 7]
   \<and> \<not> list_all (well_formed_entry packaging_release_only)
         [(''3.9'', md ''end-of-life'' ''2025-10''), (''3.8'', md ''retired'' ''2024-10'')]
   \<and> (\<exists>e. get_cached_release_cycle packaging_release_only
             [(''3.9'', md ''end-of-life'' ''2025-10''), (''3.8'', md ''retired'' ''2024-10'')]
           = Inl e)"
  using get_cached_release_cycle_all_or_nothing [of packaging_release_only example_cache]
    get_cached_release_cycle_all_or_nothing
      [of packaging_release_only
          "[(''3.9'', md ''end-of-life'' ''2025-10''), (''3.8'', md ''retired'' ''2024-10'')]"]
    example_cache_loads example_cache_well_formed unknown_phase_not_well_formed
  by blast

text \<open>
  The claim as the specification has it fails: an entry whose phase is in the
  vocabulary and whose date parses still fails the load when its version string does
  not parse.
\<close>

theorem get_cached_release_cycle_counterexample:
  "list_all (\<lambda>entry. phase_and_date_ok (snd entry)) [(''garbage'', md ''bugfix'' ''2023-06'')]
   \<and> get_cached_release_cycle packaging_release_only [(''garbage'', md ''bugfix'' ''2023-06'')]
       = Inl InvalidVersion"
  by code_simp

text \<open>
  Claim C8, as amended. A release cycle that loads is sorted descending by version,
  whatever the order of the source, and holds the releases of the source's entries. It
  is strictly descending exactly when no two of its versions are equal, which the load
  does not enforce: two different version strings may denote the same version.
\<close>

theorem get_cached_release_cycle_sorted:
  assumes "get_cached_release_cycle pkg contents = Inr rs"
  shows "sorted (rev (map ver_key rs))
         \<and> (\<exists>rs0. from_json_items pkg contents = Inr rs0 \<and> mset rs = mset rs0)
         \<and> (sorted_wrt (\<lambda>a b. ver_key b < ver_key a) rs \<longleftrightarrow> distinct (map ver_key rs))"
proof -
  obtain rs0 where rs0: "from_json_items pkg contents = Inr rs0"
    and rs: "rs = sorted_reverse ver_key rs0"
    using assms get_cached_release_cycle_Inr by blast
  have desc: "sorted (rev (map ver_key rs))"
    unfolding rs sorted_reverse_def by (simp add: rev_map [symmetric])
  have "sorted_wrt (\<lambda>a b. ver_key b < ver_key a) rs
      \<longleftrightarrow> sorted_wrt (<) (rev (map ver_key rs))"
    by (simp add: sorted_wrt_rev sorted_wrt_map)
  also have "\<dots> \<longleftrightarrow> distinct (map ver_key rs)"
    using desc by (simp add: strict_sorted_iff)
  finally have strict: "sorted_wrt (\<lambda>a b. ver_key b < ver_key a) rs
      \<longleftrightarrow> distinct (map ver_key rs)" .
  have "mset rs = mset rs0"
    unfolding rs by (rule mset_sorted_reverse)
  with rs0 desc strict show ?thesis
    by blast
qed

theorem get_cached_release_cycle_sorted_witness:
  "get_cached_release_cycle packaging_release_only example_cache =
     Inr [py [3, 11] BUGFIX 2027 10 1, py [3, 10] SECURITY 2026 10 1,
          py [3, 9] EOL 2025 10 1, py [3, 8] EOL 2024 10 7]
   \<and> sorted (rev (map ver_key [py [3, 11] BUGFIX 2027 10 1, py [3, 10] SECURITY 2026 10 1,
                                py [3, 9] EOL 2025 10 1, py [3, 8] EOL 2024 10 7]))
   \<and> map fst example_cache = [''3.10'', ''3.9'', ''3.8'', ''3.11'']"
  using get_cached_release_cycle_sorted [OF example_cache_loads] example_cache_loads
  by (simp add: example_cache_def)

text \<open>
  The claim as the specification has it fails: the keys \<^verbatim>\<open>3.8\<close> and \<^verbatim>\<open>3.8.0\<close> are
  different strings and equal versions, so the loaded sequence has a duplicate version
  and is not strictly decreasing.
\<close>

theorem get_cached_release_cycle_duplicate_counterexample:
  "distinct (map fst [(''3.8'', md ''bugfix'' ''2024-10''), (''3.8.0'', md ''bugfix'' ''2024-10'')])
   \<and> get_cached_release_cycle packaging_release_only
       [(''3.8'', md ''bugfix'' ''2024-10''), (''3.8.0'', md ''bugfix'' ''2024-10'')]
     = Inr [py [3, 8] BUGFIX 2024 10 1, py [3, 8, 0] BUGFIX 2024 10 1]
   \<and> ver_key (py [3, 8] BUGFIX 2024 10 1) = ver_key (py [3, 8, 0] BUGFIX 2024 10 1)
   \<and> \<not> sorted_wrt (\<lambda>a b. ver_key b < ver_key a)
         [py [3, 8] BUGFIX 2024 10 1, py [3, 8, 0] BUGFIX 2024 10 1]"
  by code_simp

subsection \<open>The outcome of one file\<close>

text \<open>
  Claim C9, as amended. For a manifest whose specifier has a non-empty EOL overlap and
  the supported shape, \<^verbatim>\<open>check_python_support\<close> with \<^verbatim>\<open>fix\<close> writes the new specifier
  into the manifest and then raises \<^verbatim>\<open>EOLPythonError\<close> with the message that lists the
  EOL versions in ascending order: the very exception it raises, with the manifest
  untouched, when no fix is requested. This exception differs from the normal return of
  a clean file and from the two other exceptions of the module.
\<close>

theorem check_python_support_fix_outcome:
  fixes pkg :: packaging and fs :: file_system
    and package_spec :: "Specifier list" and release_cycle :: "PythonRelease list"
    and use_system_date :: bool and utc_today :: date
  defines "eol \<equiv> eol_overlap pkg package_spec release_cycle use_system_date utc_today"
  defines "new_spec \<equiv> ''>='' @ str_nat (major (python_ver (last eol))) @ ''.''
                         @ str_nat (minor (python_ver (last eol)) + 1)"
  assumes "fs toml_file = Some contents"
    and "contents ''project'' = Some project"
    and "project ''requires-python'' = Some requires_python"
    and "requires_python \<noteq> []"
    and "SpecifierSet pkg requires_python = Some package_spec"
    and "get_cached_release_cycle pkg cache_json = Inr release_cycle"
    and "eol \<noteq> []"
    and "length package_spec = 1" and "operator (package_spec ! 0) = ''>=''"
  shows "check_python_support pkg fs toml_file cache_json use_system_date True utc_today =
           (fs(toml_file \<mapsto> contents(''project'' \<mapsto> project(''requires-python'' \<mapsto> new_spec))),
            Inl (EOLPythonError (eol_message eol)))
         \<and> check_python_support pkg fs toml_file cache_json use_system_date False utc_today =
             (fs, Inl (EOLPythonError (eol_message eol)))
         \<and> sorted (map ver_key eol)
         \<and> Inl (EOLPythonError (eol_message eol))
             \<notin> {Inr (), Inl RequiresPythonNotFoundError, Inl UnsupportedFixError}"
proof (intro conjI)
  have rp: "get_requires_python contents = Some requires_python"
    using assms(4,5) by (simp add: get_requires_python_def)
  have fixed: "get_fixed_spec package_spec eol = Inr new_spec"
    using assms(9-11) by (simp add: get_fixed_spec_def Let_def new_spec_def)
  have written: "set_requires_python contents new_spec =
      Inr (contents(''project'' \<mapsto> project(''requires-python'' \<mapsto> new_spec)))"
    using assms(4) by (simp add: set_requires_python_def)
  note loaded = check_python_support_loaded
    [where fs = fs and toml_file = toml_file, OF assms(3) rp assms(6-8)]
  show "check_python_support pkg fs toml_file cache_json use_system_date True utc_today =
           (fs(toml_file \<mapsto> contents(''project'' \<mapsto> project(''requires-python'' \<mapsto> new_spec))),
            Inl (EOLPythonError (eol_message eol)))"
    unfolding loaded eol_def [symmetric] using assms(9) fixed written by simp
  show "check_python_support pkg fs toml_file cache_json use_system_date False utc_today =
             (fs, Inl (EOLPythonError (eol_message eol)))"
    unfolding loaded eol_def [symmetric] using assms(9) by simp
  show "sorted (map ver_key eol)"
    unfolding eol_def by (simp add: eol_overlap_sort)
  show "Inl (EOLPythonError (eol_message eol))
             \<notin> {Inr (), Inl RequiresPythonNotFoundError, Inl UnsupportedFixError}"
    by simp
qed

lemma example_fs_b: "example_fs ''b.toml'' = Some (pyproject ''>=3.8'')"
  by (simp add: example_fs_def)

lemma pyproject_project:
  "pyproject s ''project'' = Some [''requires-python'' \<mapsto> s]"
  by (simp add: pyproject_def)

lemma get_requires_python_pyproject: "get_requires_python (pyproject s) = Some s"
  by (simp add: get_requires_python_def pyproject_def)

lemma example_specifier:
  "SpecifierSet packaging_release_only ''>=3.8''
     = Some [\<lparr>operator = ''>='', version_str = ''3.8''\<rparr>]"
  by code_simp

lemma example_cache_overlap:
  "eol_overlap packaging_release_only [\<lparr>operator = ''>='', version_str = ''3.8''\<rparr>]
     [py [3, 11] BUGFIX 2027 10 1, py [3, 10] SECURITY 2026 10 1,
      py [3, 9] EOL 2025 10 1, py [3, 8] EOL 2024 10 7]
     False example_today
   = [py [3, 8] EOL 2024 10 7, py [3, 9] EOL 2025 10 1]"
  by code_simp

lemma example_message:
  "eol_message [py [3, 8] EOL 2024 10 7, py [3, 9] EOL 2025 10 1]
     = ''EOL Python support found: 3.8, 3.9''"
  by code_simp

lemma example_new_spec:
  "''>='' @ str_nat (major (python_ver (last [py [3, 8] EOL 2024 10 7, py [3, 9] EOL 2025 10 1])))
     @ ''.''
     @ str_nat (minor (python_ver (last [py [3, 8] EOL 2024 10 7, py [3, 9] EOL 2025 10 1])) + 1)
   = ''>=3.10''"
  by (simp add: python_ver_py major_minor_release_only str_nat_3 str_nat_10)

theorem check_python_support_fix_outcome_witness:
  "check_python_support packaging_release_only example_fs ''b.toml'' example_cache
     False True example_today
   = (example_fs(''b.toml'' \<mapsto>
        (pyproject ''>=3.8'')(''project'' \<mapsto>
           [''requires-python'' \<mapsto> ''>=3.8''](''requires-python'' \<mapsto> ''>=3.10''))),
      Inl (EOLPythonError ''EOL Python support found: 3.8, 3.9''))
   \<and> check_python_support packaging_release_only example_fs ''b.toml'' example_cache
       False False example_today
     = (example_fs, Inl (EOLPythonError ''EOL Python support found: 3.8, 3.9''))"
proof -
  have h3: "[''requires-python'' \<mapsto> ''>=3.8''] ''requires-python'' = Some ''>=3.8''"
    by simp
  have h4: "''>=3.8'' \<noteq> []"
    by simp
  have h7: "eol_overlap packaging_release_only [\<lparr>operator = ''>='', version_str = ''3.8''\<rparr>]
     [py [3, 11] BUGFIX 2027 10 1, py [3, 10] SECURITY 2026 10 1,
      py [3, 9] EOL 2025 10 1, py [3, 8] EOL 2024 10 7] False example_today \<noteq> []"
    unfolding example_cache_overlap by simp
  have h8: "length [\<lparr>operator = ''>='', version_str = ''3.8''\<rparr>] = 1"
    by simp
  have h9: "operator ([\<lparr>operator = ''>='', version_str = ''3.8''\<rparr>] ! 0) = ''>=''"
    by simp
  note t = check_python_support_fix_outcome
    [where fs = example_fs and toml_file = "''b.toml''" and contents = "pyproject ''>=3.8''",
     OF example_fs_b pyproject_project h3 h4 example_specifier example_cache_loads h7 h8 h9,
     unfolded example_cache_overlap example_new_spec example_message]
  from t show ?thesis
    by blast
qed

subsection \<open>The loop over the files\<close>

text \<open>
  One turn of the loop: a clean file and the two exceptions that have a handler go on
  to the next file, the latter with a printed line and exit code 1;
  \<^verbatim>\<open>UnsupportedFixError\<close> leaves the loop.
\<close>

lemma main_loop_clean:
  assumes "check_python_support pkg (files w) file cache_json (\<not> cache_only) fix utc_today
           = (fs', Inr u)"
  shows "main_loop pkg cache_json utc_today cache_only fix (file # filenames) w ec =
         main_loop pkg cache_json utc_today cache_only fix filenames (w\<lparr>files := fs'\<rparr>) ec"
  using assms by simp

lemma main_loop_EOLPythonError:
  assumes "check_python_support pkg (files w) file cache_json (\<not> cache_only) fix utc_today
           = (fs', Inl (EOLPythonError e))"
  shows "main_loop pkg cache_json utc_today cache_only fix (file # filenames) w ec =
         main_loop pkg cache_json utc_today cache_only fix filenames
           (w\<lparr>files := fs', stdout := stdout w @ [file @ '': '' @ e]\<rparr>) 1"
  using assms by simp

lemma main_loop_RequiresPythonNotFoundError:
  assumes "check_python_support pkg (files w) file cache_json (\<not> cache_only) fix utc_today
           = (fs', Inl RequiresPythonNotFoundError)"
  shows "main_loop pkg cache_json utc_today cache_only fix (file # filenames) w ec =
         main_loop pkg cache_json utc_today cache_only fix filenames
           (w\<lparr>files := fs',
              stdout := stdout w
                @ [file @ '' 'requires-python' could not be located, or it is empty.'']\<rparr>) 1"
  using assms by simp

lemma main_loop_UnsupportedFixError:
  assumes "check_python_support pkg (files w) file cache_json (\<not> cache_only) fix utc_today
           = (fs', Inl UnsupportedFixError)"
  shows "main_loop pkg cache_json utc_today cache_only fix (file # filenames) w ec =
         (w\<lparr>files := fs'\<rparr>, Inl UnsupportedFixError)"
  using assms by simp

lemma example_check_b:
  "check_python_support packaging_release_only example_fs ''b.toml'' example_cache
     False fix example_today
   = (if fix then example_fs(''b.toml'' \<mapsto> pyproject ''>=3.10'') else example_fs,
      Inl (EOLPythonError ''EOL Python support found: 3.8, 3.9''))"
proof -
  have fixed: "get_fixed_spec [\<lparr>operator = ''>='', version_str = ''3.8''\<rparr>]
      [py [3, 8] EOL 2024 10 7, py [3, 9] EOL 2025 10 1] = Inr ''>=3.10''"
    by (simp add: get_fixed_spec_def python_ver_py major_minor_release_only
        str_nat_3 str_nat_10)
  have written: "set_requires_python (pyproject ''>=3.8'') ''>=3.10'' = Inr (pyproject ''>=3.10'')"
    by (simp add: set_requires_python_def pyproject_def)
  have ne: "''>=3.8'' \<noteq> []"
    by simp
  note loaded = check_python_support_loaded
    [where fs = example_fs and toml_file = "''b.toml''" and use_system_date = False
       and utc_today = example_today,
     OF example_fs_b get_requires_python_pyproject ne example_specifier example_cache_loads,
     unfolded example_cache_overlap]
  show ?thesis
    unfolding loaded Let_def fixed written example_message sum.case by simp
qed

text \<open>
  The claim as the specification has it fails: for \<^verbatim>\<open>b.toml\<close> with \<^verbatim>\<open>>=3.8\<close> the
  call with \<^verbatim>\<open>fix\<close> and the call without raise the same exception, and \<^verbatim>\<open>main\<close>
  prints the same line and returns the same exit code for both.
\<close>

theorem fixed_is_reported_as_violation_counterexample:
  "snd (check_python_support packaging_release_only example_fs ''b.toml'' example_cache
          False True example_today)
   = snd (check_python_support packaging_release_only example_fs ''b.toml'' example_cache
            False False example_today)
   \<and> snd (check_python_support packaging_release_only example_fs ''b.toml'' example_cache
            False True example_today)
     = Inl (EOLPythonError ''EOL Python support found: 3.8, 3.9'')
   \<and> snd (main packaging_release_only example_cache example_today [''b.toml''] True True
            \<lparr>files = example_fs, stdout = []\<rparr>) = Inr 1
   \<and> snd (main packaging_release_only example_cache example_today [''b.toml''] True False
            \<lparr>files = example_fs, stdout = []\<rparr>) = Inr 1
   \<and> stdout (fst (main packaging_release_only example_cache example_today [''b.toml''] True True
                    \<lparr>files = example_fs, stdout = []\<rparr>))
     = [''b.toml: EOL Python support found: 3.8, 3.9'']
   \<and> stdout (fst (main packaging_release_only example_cache example_today [''b.toml''] True
                    False \<lparr>files = example_fs, stdout = []\<rparr>))
     = [''b.toml: EOL Python support found: 3.8, 3.9'']"
  by (simp add: main_def example_check_b)

lemma example_fs_a: "example_fs ''a.toml'' = Some (pyproject ''>=3.8,<4.0'')"
  by (simp add: example_fs_def)

lemma example_specifier_two_clauses:
  "SpecifierSet packaging_release_only ''>=3.8,<4.0''
     = Some [\<lparr>operator = ''>='', version_str = ''3.8''\<rparr>,
             \<lparr>operator = ''<'', version_str = ''4.0''\<rparr>]"
  by code_simp

lemma example_cache_overlap_two_clauses:
  "eol_overlap packaging_release_only
     [\<lparr>operator = ''>='', version_str = ''3.8''\<rparr>, \<lparr>operator = ''<'', version_str = ''4.0''\<rparr>]
     [py [3, 11] BUGFIX 2027 10 1, py [3, 10] SECURITY 2026 10 1,
      py [3, 9] EOL 2025 10 1, py [3, 8] EOL 2024 10 7]
     False example_today
   = [py [3, 8] EOL 2024 10 7, py [3, 9] EOL 2025 10 1]"
  by code_simp

lemma example_check_a:
  "check_python_support packaging_release_only example_fs ''a.toml'' example_cache
     False fix example_today
   = (example_fs,
      if fix then Inl UnsupportedFixError
      else Inl (EOLPythonError ''EOL Python support found: 3.8, 3.9''))"
proof -
  have unsupported: "get_fixed_spec
      [\<lparr>operator = ''>='', version_str = ''3.8''\<rparr>, \<lparr>operator = ''<'', version_str = ''4.0''\<rparr>]
      [py [3, 8] EOL 2024 10 7, py [3, 9] EOL 2025 10 1] = Inl UnsupportedFixError"
    by (simp add: get_fixed_spec_def)
  have ne: "''>=3.8,<4.0'' \<noteq> []"
    by simp
  note loaded = check_python_support_loaded
    [where fs = example_fs and toml_file = "''a.toml''" and use_system_date = False
       and utc_today = example_today,
     OF example_fs_a get_requires_python_pyproject ne example_specifier_two_clauses
       example_cache_loads,
     unfolded example_cache_overlap_two_clauses]
  show ?thesis
    unfolding loaded Let_def unsupported example_message sum.case by simp
qed

text \<open>
  Claim C7. The handlers of the loop in \<^verbatim>\<open>main\<close> catch \<^verbatim>\<open>EOLPythonError\<close> and
  \<^verbatim>\<open>RequiresPythonNotFoundError\<close>; \<^verbatim>\<open>UnsupportedFixError\<close> has none. With \<^verbatim>\<open>--fix\<close>
  and the files \<^verbatim>\<open>a.toml\<close> (\<^verbatim>\<open>>=3.8,<4.0\<close>) and \<^verbatim>\<open>b.toml\<close> (\<^verbatim>\<open>>=3.8\<close>), the
  exception of the first file leaves \<^verbatim>\<open>main\<close>: nothing is printed, no exit code is
  returned and \<^verbatim>\<open>b.toml\<close> is neither checked nor repaired. Without \<^verbatim>\<open>--fix\<close> both
  files are reported, and \<^verbatim>\<open>b.toml\<close> alone is repaired and reported.
\<close>

theorem main_unsupported_fix_aborts:
  "main packaging_release_only example_cache example_today [''a.toml'', ''b.toml''] True True
     \<lparr>files = example_fs, stdout = []\<rparr>
   = (\<lparr>files = example_fs, stdout = []\<rparr>, Inl UnsupportedFixError)
   \<and> main packaging_release_only example_cache example_today [''a.toml'', ''b.toml''] True False
       \<lparr>files = example_fs, stdout = []\<rparr>
     = (\<lparr>files = example_fs,
         stdout = [''a.toml: EOL Python support found: 3.8, 3.9'',
                   ''b.toml: EOL Python support found: 3.8, 3.9'']\<rparr>,
        Inr 1)
   \<and> main packaging_release_only example_cache example_today [''b.toml''] True True
       \<lparr>files = example_fs, stdout = []\<rparr>
     = (\<lparr>files = example_fs(''b.toml'' \<mapsto> pyproject ''>=3.10''),
         stdout = [''b.toml: EOL Python support found: 3.8, 3.9'']\<rparr>,
        Inr 1)"
  by (simp add: main_def example_check_a example_check_b)

end
